theory Spec2Isabelle
  imports Complex_Main "HOL-Library.Product_Lexorder"
begin

section \<open>Values, responses and stored documents\<close>

text \<open>
  The backend is an Express application: every handler reads a request, talks to the
  document store and to the file storage, and writes one JSON response. A handler is
  embedded as a function from the request and the state it reads to the response (and
  the state it leaves). A rejected promise or a thrown exception is a value of a result
  type, so that every \<open>catch\<close> of the source is a branch of the model.
\<close>

text \<open>
  A JavaScript value as a request body or query can carry it. Numbers are the finite
  ones (a JSON document has no NaN and no infinity); a \<open>Date\<close> object is its time
  value in milliseconds since the epoch. A string is the list of its code units, and a
  \<open>char\<close> is a code unit below 256 (Latin-1): the length of a string is the number
  of its code units, as \<open>.length\<close> counts them.
\<close>

datatype jsval =
    JUndefined
  | JNull
  | JBool bool
  | JNum rat
  | JStr string
  | JDate int
  | JArr "jsval list"
  | JObj "(string \<times> jsval) list"

text \<open>JavaScript's ToBoolean, as \<open>!v\<close>, \<open>a || b\<close> and \<open>c ? a : b\<close> use it.\<close>

fun truthy :: "jsval \<Rightarrow> bool" where
  "truthy JUndefined = False"
| "truthy JNull = False"
| "truthy (JBool b) = b"
| "truthy (JNum q) = (q \<noteq> 0)"
| "truthy (JStr s) = (s \<noteq> [])"
| "truthy (JDate t) = True"
| "truthy (JArr xs) = True"
| "truthy (JObj kvs) = True"

text \<open>The decimal text of a natural number.\<close>

fun dec :: "nat \<Rightarrow> string" where
  "dec n = (if n < 10 then [char_of (48 + n)] else dec (n div 10) @ [char_of (48 + n mod 10)])"

text \<open>The envelope \<open>{success, message, data?/errors?}\<close> sent with \<open>res.status(n).json(...)\<close>.\<close>

record 'a response =
  status :: nat
  success :: bool
  message :: string
  errors :: "string list"
  data :: "'a option"

definition fail :: "nat \<Rightarrow> string \<Rightarrow> 'a response" where
  "fail st msg = \<lparr>status = st, success = False, message = msg, errors = [], data = None\<rparr>"

definition ok :: "nat \<Rightarrow> string \<Rightarrow> 'a \<Rightarrow> 'a response" where
  "ok st msg d = \<lparr>status = st, success = True, message = msg, errors = [], data = Some d\<rparr>"

text \<open>
  An attachment object. The attachment schema of the Notice model declares
  \<open>filename\<close>, \<open>originalName\<close>, \<open>path\<close>, \<open>size\<close> and \<open>mimeType\<close>, all
  required. The controller builds its attachment objects with \<open>url\<close>, \<open>publicId\<close>,
  \<open>format\<close>, \<open>resourceType\<close>, \<open>width\<close> and \<open>height\<close> and without a
  \<open>path\<close>, and reads \<open>attachment?.publicId\<close> of a stored notice. A field an
  object does not have is absent.
\<close>

record attachment =
  a_filename :: string
  a_originalName :: string
  a_path :: "string option"
  a_url :: "string option"
  a_publicId :: "string option"
  a_size :: nat
  a_mimeType :: string
  a_format :: "string option"
  a_resourceType :: "string option"
  a_width :: "nat option"
  a_height :: "nat option"

text \<open>A Notice document (\<open>INotice\<close>); dates are time values in milliseconds.\<close>

record notice =
  n_id :: string
  n_title :: string
  n_description :: string
  n_date :: int
  n_attachment :: "attachment option"
  n_createdBy :: string
  n_updatedBy :: string
  n_isActive :: bool
  n_createdAt :: int
  n_updatedAt :: int


section \<open>Listing notices: \<open>NoticeController.getAllNotices\<close>\<close>

text \<open>
  The numbers the handler computes with: doubles whose value is an integer, the two
  infinities and NaN. Negative zero is zero here: both are falsy and both print as 0.
\<close>

datatype jsnum = NaN | Whole int | PosInfinity | NegInfinity

text \<open>The number of binary digits of a natural number.\<close>

fun bits :: "nat \<Rightarrow> nat" where
  "bits n = (if n = 0 then 0 else Suc (bits (n div 2)))"

declare bits.simps [simp del]

text \<open>
  The double nearest to an integer: the integer itself below \<open>2^53\<close>; above, its 53
  leading binary digits, rounded to nearest with ties to even; an infinity from
  \<open>2^1024\<close> on.
\<close>

definition to_double :: "int \<Rightarrow> jsnum" where
  "to_double n =
     (let a = nat \<bar>n\<bar> in
      if a < 2 ^ 53 then Whole n
      else
        (let e = bits a - 53;
             q = a div 2 ^ e;
             r = a mod 2 ^ e;
             q' = (if 2 * r > 2 ^ e \<or> (2 * r = 2 ^ e \<and> odd q) then q + 1 else q);
             m = q' * 2 ^ e
         in if m \<ge> 2 ^ 1024 then (if n < 0 then NegInfinity else PosInfinity)
            else Whole ((if n < 0 then - 1 else 1) * int m)))"

text \<open>The arithmetic of the handler on these numbers: \<open>x - 1\<close> and \<open>x * y\<close>, each rounded once.\<close>

fun js_minus_one :: "jsnum \<Rightarrow> jsnum" where
  "js_minus_one (Whole n) = to_double (n - 1)"
| "js_minus_one x = x"

fun js_times :: "jsnum \<Rightarrow> jsnum \<Rightarrow> jsnum" where
  "js_times (Whole a) (Whole b) = to_double (a * b)"
| "js_times NaN y = NaN"
| "js_times x NaN = NaN"
| "js_times (Whole a) PosInfinity = (if a = 0 then NaN else if a > 0 then PosInfinity else NegInfinity)"
| "js_times (Whole a) NegInfinity = (if a = 0 then NaN else if a > 0 then NegInfinity else PosInfinity)"
| "js_times PosInfinity (Whole b) = (if b = 0 then NaN else if b > 0 then PosInfinity else NegInfinity)"
| "js_times NegInfinity (Whole b) = (if b = 0 then NaN else if b > 0 then NegInfinity else PosInfinity)"
| "js_times PosInfinity PosInfinity = PosInfinity"
| "js_times PosInfinity NegInfinity = NegInfinity"
| "js_times NegInfinity PosInfinity = NegInfinity"
| "js_times NegInfinity NegInfinity = PosInfinity"

text \<open>
  \<open>parseInt(s)\<close> with no radix: leading white space is skipped, one sign is read, a
  \<open>0x\<close> prefix selects base sixteen, and the longest run of digits is the value,
  as the double nearest to it; no digit at all is NaN. A query parameter that is absent
  is \<open>undefined\<close>, whose text \<open>undefined\<close> has no digit. White space is what
  \<open>parseInt\<close> and \<open>String.prototype.trim\<close> strip, among the code units below
  256: tab, line feed, vertical tab, form feed, carriage return, space and the
  no-break space.
\<close>

definition is_ws :: "char \<Rightarrow> bool" where
  "is_ws c =
     (c \<in> {CHR 0x09, CHR 0x0A, CHR 0x0B, CHR 0x0C, CHR 0x0D, CHR '' '', CHR 0xA0})"

definition digit_of :: "char \<Rightarrow> nat option" where
  "digit_of c =
     (let n = (of_char c :: nat) in
      if 48 \<le> n \<and> n \<le> 57 then Some (n - 48)
      else if 97 \<le> n \<and> n \<le> 102 then Some (n - 87)
      else if 65 \<le> n \<and> n \<le> 70 then Some (n - 55)
      else None)"

definition is_digit :: "nat \<Rightarrow> char \<Rightarrow> bool" where
  "is_digit radix c = (case digit_of c of None \<Rightarrow> False | Some d \<Rightarrow> d < radix)"

definition digits_value :: "nat \<Rightarrow> string \<Rightarrow> nat" where
  "digits_value radix ds = foldl (\<lambda>acc c. acc * radix + (case digit_of c of None \<Rightarrow> 0 | Some d \<Rightarrow> d)) 0 ds"

definition parseInt :: "string \<Rightarrow> jsnum" where
  "parseInt s =
     (let s1 = dropWhile is_ws s;
          neg = (case s1 of c # _ \<Rightarrow> c = CHR ''-'' | [] \<Rightarrow> False);
          s2 = (case s1 of c # r \<Rightarrow> if c = CHR ''-'' \<or> c = CHR ''+'' then r else s1 | [] \<Rightarrow> s1);
          hex = (take 2 s2 = ''0x'' \<or> take 2 s2 = ''0X'');
          radix = (if hex then 16 else 10);
          s3 = (if hex then drop 2 s2 else s2);
          ds = takeWhile (is_digit radix) s3
      in if ds = [] then NaN
         else to_double ((if neg then - 1 else 1) * int (digits_value radix ds)))"

text \<open>
  \<open>parseInt(req.query.x as string) || d\<close>: NaN and zero are falsy, every other
  number is itself.
\<close>

definition parse_or :: "string option \<Rightarrow> int \<Rightarrow> jsnum" where
  "parse_or q d =
     (case (case q of None \<Rightarrow> NaN | Some s \<Rightarrow> parseInt s) of
        NaN \<Rightarrow> Whole d
      | Whole n \<Rightarrow> if n = 0 then Whole d else Whole n
      | PosInfinity \<Rightarrow> PosInfinity
      | NegInfinity \<Rightarrow> NegInfinity)"

record list_query =
  q_page :: "string option"
  q_limit :: "string option"

record pagination =
  currentPage :: int
  totalPages :: int
  totalItems :: int
  itemsPerPage :: int
  hasNextPage :: bool
  hasPrevPage :: bool

record notice_page =
  notices :: "notice list"
  pagination :: pagination

text \<open>\<open>.sort({ date: -1, createdAt: -1 })\<close>: by date, then creation time, both descending.\<close>

definition sort_notices :: "notice list \<Rightarrow> notice list" where
  "sort_notices ns = sort_key (\<lambda>n. (- n_date n, - n_createdAt n)) ns"

text \<open>
  \<open>.skip(k).limit(l)\<close> of the store's driver: the server refuses a skip or a limit
  that is no 64-bit integer and a negative skip (the query rejects); a negative limit
  asks for one batch of \<open>|l|\<close> documents, and limit zero, which \<open>|| 10\<close> never lets
  through, is no limit.
\<close>

definition skip_limit :: "int \<Rightarrow> int \<Rightarrow> 'a list \<Rightarrow> 'a list option" where
  "skip_limit k l xs =
     (if k < 0 \<or> k \<ge> 2 ^ 63 \<or> \<bar>l\<bar> \<ge> 2 ^ 63 then None
      else Some (let ys = drop (nat k) xs in if l = 0 then ys else take (nat \<bar>l\<bar>) ys))"

text \<open>
  \<open>Math.ceil(total / limit)\<close> for a count and a whole, nonzero limit: the ceiling of
  the quotient (the rounding of the division does not reach it for a count below
  \<open>2^53\<close>).
\<close>

definition math_ceil_div :: "int \<Rightarrow> int \<Rightarrow> int" where
  "math_ceil_div a b = \<lceil>(of_int a :: rat) / of_int b\<rceil>"

text \<open>
  The handler. A page, limit or skip that is not a whole number (an infinity, or the
  NaN of zero times an infinity) makes the query reject, like a skip or limit the
  server refuses; the handler's \<open>catch\<close> answers 500.
\<close>

definition getAllNotices :: "notice list \<Rightarrow> list_query \<Rightarrow> notice_page response" where
  "getAllNotices store q =
     (let page = parse_or (q_page q) 1;
          limit = parse_or (q_limit q) 10;
          skip = js_times (js_minus_one page) limit
      in case (page, limit, skip) of
           (Whole p, Whole l, Whole k) \<Rightarrow>
             (case skip_limit k l (sort_notices store) of
                None \<Rightarrow> fail 500 ''Internal server error while fetching notices''
              | Some found \<Rightarrow>
                  (let total_n = int (length store)
                   in ok 200 ''Notices retrieved successfully''
                        \<lparr>notices = found,
                         pagination =
                           \<lparr>currentPage = p,
                            totalPages = math_ceil_div total_n l,
                            totalItems = total_n,
                            itemsPerPage = l,
                            hasNextPage = (p < math_ceil_div total_n l),
                            hasPrevPage = (p > 1)\<rparr>\<rparr>))
         | _ \<Rightarrow> fail 500 ''Internal server error while fetching notices'')"


section \<open>Thrown errors and the central error handler\<close>

text \<open>
  The classes of the errors the handlers see, with the prototype chains their libraries
  give them: \<open>jsonwebtoken\<close> derives \<open>TokenExpiredError\<close> and \<open>NotBeforeError\<close>
  from \<open>JsonWebTokenError\<close>, and \<open>AppError\<close> of the error-handling middleware extends
  \<open>Error\<close> without renaming it.
\<close>

datatype err_class =
    Error
  | AppError
  | JsonWebTokenError
  | TokenExpiredError
  | NotBeforeError
  | CastError
  | ValidationError
  | MongoServerError

fun parent_class :: "err_class \<Rightarrow> err_class option" where
  "parent_class Error = None"
| "parent_class TokenExpiredError = Some JsonWebTokenError"
| "parent_class NotBeforeError = Some JsonWebTokenError"
| "parent_class c = Some Error"

text \<open>\<open>e instanceof C\<close>: \<open>C\<close> is the class of \<open>e\<close>, its parent or its grandparent.\<close>

definition instanceof :: "err_class \<Rightarrow> err_class \<Rightarrow> bool" where
  "instanceof c target =
     (c = target \<or> parent_class c = Some target
      \<or> (case parent_class c of None \<Rightarrow> False | Some p \<Rightarrow> parent_class p = Some target))"

fun class_name :: "err_class \<Rightarrow> string" where
  "class_name Error = ''Error''"
| "class_name AppError = ''Error''"
| "class_name JsonWebTokenError = ''JsonWebTokenError''"
| "class_name TokenExpiredError = ''TokenExpiredError''"
| "class_name NotBeforeError = ''NotBeforeError''"
| "class_name CastError = ''CastError''"
| "class_name ValidationError = ''ValidationError''"
| "class_name MongoServerError = ''MongoServerError''"

datatype err_code = CodeNum int | CodeStr string

record js_error =
  e_class :: err_class
  e_message :: string
  e_statusCode :: "nat option"
  e_code :: "err_code option"
  e_errors :: "string list"
  e_keyValue :: "string list"

definition new_Error :: "string \<Rightarrow> js_error" where
  "new_Error msg =
     \<lparr>e_class = Error, e_message = msg, e_statusCode = None, e_code = None,
      e_errors = [], e_keyValue = []\<rparr>"

definition cast_error :: js_error where
  "cast_error =
     \<lparr>e_class = CastError, e_message = ''Cast to ObjectId failed'', e_statusCode = None,
      e_code = None, e_errors = [], e_keyValue = []\<rparr>"

text \<open>
  \<open>errorHandler\<close>, the last middleware of the application: the status and message of
  the error, overridden in turn by each recognised kind. It reads \<open>error.statusCode\<close>
  only: a status a handler set on the response before throwing is overwritten. The
  development-only \<open>stack\<close> and \<open>details\<close> fields are left out of the envelope.
\<close>

definition errorHandler :: "js_error \<Rightarrow> 'a response" where
  "errorHandler error =
     (let statusCode0 = (case e_statusCode error of None \<Rightarrow> 500 | Some c \<Rightarrow> if c = 0 then 500 else c);
          message0 = (if e_message error = [] then ''Internal Server Error'' else e_message error);
          nm = class_name (e_class error);
          r0 = (statusCode0, message0, []);
          r1 = (if nm = ''ValidationError'' then (400, ''Validation Error'', e_errors error) else r0);
          r2 = (if e_code error = Some (CodeNum 11000)
                then (400, ''Duplicate field value'',
                      [(case e_keyValue error of [] \<Rightarrow> ''undefined'' | f # _ \<Rightarrow> f) @ '' already exists''])
                else r1);
          r3 = (if nm = ''CastError''
                then (400, ''Invalid ID format'', [''The provided ID is not valid'']) else r2);
          r4 = (if nm = ''JsonWebTokenError''
                then (401, ''Invalid token'', [''Please provide a valid authentication token'']) else r3);
          r5 = (if nm = ''TokenExpiredError''
                then (401, ''Token expired'', [''Authentication token has expired'']) else r4);
          r6 = (if e_code error = Some (CodeStr ''LIMIT_FILE_SIZE'')
                then (400, ''File too large'', [''File size exceeds the maximum allowed limit'']) else r5);
          r7 = (if e_code error = Some (CodeStr ''LIMIT_UNEXPECTED_FILE'')
                then (400, ''Unexpected file field'', [''Unexpected file field in the request'']) else r6)
      in case r7 of (st, msg, errs) \<Rightarrow>
           \<lparr>status = st, success = False, message = msg, errors = errs, data = None\<rparr>)"

section \<open>Identifiers and lookups by id\<close>

text \<open>
  A well-formed identifier is 24 hexadecimal characters, as \<open>objectIdSchema\<close> of the
  validators has it. \<open>Model.findById\<close> casts its argument to an ObjectId first and
  rejects with a \<open>CastError\<close> when the cast fails; the comparison is on the identifier's
  bytes, so the case of the hexadecimal letters does not matter.
\<close>

definition isObjectId :: "string \<Rightarrow> bool" where
  "isObjectId s = (length s = 24 \<and> list_all (is_digit 16) s)"

definition lower_hex :: "char \<Rightarrow> char" where
  "lower_hex c = (let n = (of_char c :: nat) in if 65 \<le> n \<and> n \<le> 70 then char_of (n + 32) else c)"

definition findById :: "('d \<Rightarrow> string) \<Rightarrow> 'd list \<Rightarrow> string \<Rightarrow> js_error + 'd option" where
  "findById idf store ident =
     (if isObjectId ident then Inr (find (\<lambda>d. idf d = map lower_hex ident) store)
      else Inl cast_error)"

section \<open>Reading one notice: \<open>NoticeController.getNoticeById\<close>\<close>

text \<open>The whole body stands in one \<open>try\<close>; its \<open>catch\<close> answers 500 for any error.\<close>

definition getNoticeById :: "notice list \<Rightarrow> string \<Rightarrow> notice response" where
  "getNoticeById store ident =
     (case findById n_id store ident of
        Inl err \<Rightarrow> fail 500 ''Internal server error while fetching notice''
      | Inr None \<Rightarrow> fail 404 ''Notice not found''
      | Inr (Some n) \<Rightarrow> ok 200 ''Notice retrieved successfully'' n)"

section \<open>The authorization gate: \<open>authenticateAdmin\<close>\<close>

record admin =
  ad_id :: string
  ad_name :: string
  ad_email :: string
  ad_password :: string
  ad_role :: string
  ad_isActive :: bool
  ad_lastLogin :: "int option"

record JwtPayload =
  adminId :: string
  email :: string
  role :: string

text \<open>What the gate attaches to the request as \<open>req.admin\<close> before calling \<open>next()\<close>.\<close>

record admin_context =
  ctx_adminId :: string
  ctx_email :: string
  ctx_name :: string
  ctx_role :: string

datatype auth_result = Next admin_context | Rejected "unit response"

text \<open>
  The gate reads the token from the cookie, has \<open>jwt.verify(token, config.JWT_SECRET)\<close>
  check it, and looks the admin up in the store as it is at this request. \<open>verify\<close> is
  the library call at the time of the request: it returns the payload, or throws
  \<open>JsonWebTokenError\<close> (malformed, bad signature), \<open>NotBeforeError\<close> or
  \<open>TokenExpiredError\<close> (well formed and signed, past its expiry). The \<open>catch\<close> tests
  \<open>instanceof jwt.JsonWebTokenError\<close> first and \<open>instanceof jwt.TokenExpiredError\<close>
  second.
\<close>

definition authenticateAdmin ::
  "(string \<Rightarrow> err_class + JwtPayload) \<Rightarrow> admin list \<Rightarrow> string option \<Rightarrow> auth_result" where
  "authenticateAdmin verify admins cookie_token =
     (case cookie_token of
        None \<Rightarrow> Rejected (fail 401 ''Access denied. No token provided.'')
      | Some token \<Rightarrow>
          if token = [] then Rejected (fail 401 ''Access denied. No token provided.'')
          else
            (let thrown =
               (case verify token of
                  Inl c \<Rightarrow> Inl c
                | Inr decoded \<Rightarrow>
                    (case findById ad_id admins (adminId decoded) of
                       Inl err \<Rightarrow> Inl (e_class err)
                     | Inr found \<Rightarrow> Inr found))
             in case thrown of
                  Inr None \<Rightarrow> Rejected (fail 401 ''Access denied. Admin not found.'')
                | Inr (Some adm) \<Rightarrow>
                    if \<not> ad_isActive adm
                    then Rejected (fail 401 ''Access denied. Admin account is deactivated.'')
                    else Next \<lparr>ctx_adminId = ad_id adm, ctx_email = ad_email adm,
                               ctx_name = ad_name adm, ctx_role = ad_role adm\<rparr>
                | Inl c \<Rightarrow>
                    if instanceof c JsonWebTokenError
                    then Rejected (fail 401 ''Access denied. Invalid token.'')
                    else if instanceof c TokenExpiredError
                    then Rejected (fail 401 ''Access denied. Token has expired.'')
                    else Rejected (fail 500 ''Internal server error during authentication.'')))"

text \<open>Deactivating an admin: the store's record with \<open>isActive\<close> set to false.\<close>

definition deactivate :: "string \<Rightarrow> admin list \<Rightarrow> admin list" where
  "deactivate ident admins =
     map (\<lambda>a. if ad_id a = ident then a\<lparr>ad_isActive := False\<rparr> else a) admins"


section \<open>Schema validation: \<open>validators.ts\<close>\<close>

text \<open>
  The schemas are Joi schemas, and each helper calls
  \<open>schema.validate(data, { abortEarly: false })\<close>. The library's \<open>validate\<close> is
  embedded as it treats one key of an object schema, in this order: a missing key
  (\<open>any.required\<close>, or the default), coercion of the raw value (trimming a string,
  reading a number or a date from a string), the allowed values of \<open>valid(...)\<close>
  (\<open>any.only\<close>), the base check of the type (\<open>string.base\<close>, \<open>string.empty\<close>,
  \<open>number.base\<close>, \<open>number.unsafe\<close>, \<open>date.base\<close>), and then the rules in the order
  the schema chains them. The error of a base check ends the validation of its key
  whatever \<open>abortEarly\<close> says; every rule that fails adds its error. With
  \<open>abortEarly\<close> the whole validation stops at its first error.

  What the library leaves to its own parsers is a parameter: the email check, and the
  reading of a number and of a date from a string. Numbers are exact rationals, and a
  string's length is the number of its characters.
\<close>

record joi_env =
  is_email :: "string \<Rightarrow> bool"
  number_of_string :: "string \<Rightarrow> rat option"
  date_of_string :: "string \<Rightarrow> int option"

datatype jtype = TString | TNumber | TDate

datatype rule = Min int | Max int | Email | Pattern "string \<Rightarrow> bool" | Integer

record field_schema =
  f_key :: string
  f_type :: jtype
  f_trim :: bool
  f_required :: bool
  f_only :: "string list option"
  f_default :: "jsval option"
  f_rules :: "rule list"
  f_messages :: "(string \<times> string) list"

definition quoted :: "string \<Rightarrow> string" where
  "quoted k = [CHR 0x22] @ k @ [CHR 0x22]"

text \<open>The library's own message for an error code that the schema gives no message for.\<close>

definition default_message :: "string \<Rightarrow> string \<Rightarrow> string" where
  "default_message k code =
     (if code = ''string.base'' then quoted k @ '' must be a string''
      else if code = ''string.empty'' then quoted k @ '' is not allowed to be empty''
      else if code = ''any.required'' then quoted k @ '' is required''
      else if code = ''number.base'' then quoted k @ '' must be a number''
      else if code = ''number.unsafe'' then quoted k @ '' must be a safe number''
      else if code = ''date.base'' then quoted k @ '' must be a valid date''
      else if code = ''object.unknown'' then quoted k @ '' is not allowed''
      else if code = ''object.base'' then quoted k @ '' must be of type object''
      else quoted k @ '' failed '' @ code)"

definition msg_of :: "field_schema \<Rightarrow> string \<Rightarrow> string" where
  "msg_of f code =
     (case map_of (f_messages f) code of
        Some m \<Rightarrow> m
      | None \<Rightarrow> default_message (f_key f) code)"

text \<open>\<open>String.prototype.trim\<close>: the white space of \<open>is_ws\<close> off both ends.\<close>

definition trim :: "string \<Rightarrow> string" where
  "trim s = rev (dropWhile is_ws (rev (dropWhile is_ws s)))"

text \<open>\<open>new Date(n)\<close> for a number: the time value is \<open>n\<close> cut to an integer, within the range of dates.\<close>

definition date_of_number :: "rat \<Rightarrow> int option" where
  "date_of_number q =
     (let t = (if 0 \<le> q then \<lfloor>q\<rfloor> else \<lceil>q\<rceil>)
      in if \<bar>t\<bar> \<le> 8640000000000000 then Some t else None)"

definition coerce :: "joi_env \<Rightarrow> field_schema \<Rightarrow> jsval \<Rightarrow> jsval" where
  "coerce env f v =
     (case (f_type f, v) of
        (TString, JStr s) \<Rightarrow> JStr (if f_trim f then trim s else s)
      | (TNumber, JStr s) \<Rightarrow> (case number_of_string env s of Some q \<Rightarrow> JNum q | None \<Rightarrow> v)
      | (TDate, JStr s) \<Rightarrow> (case date_of_string env s of Some t \<Rightarrow> JDate t | None \<Rightarrow> v)
      | (TDate, JNum q) \<Rightarrow> (case date_of_number q of Some t \<Rightarrow> JDate t | None \<Rightarrow> v)
      | _ \<Rightarrow> v)"

definition allowed_hit :: "field_schema \<Rightarrow> jsval \<Rightarrow> bool" where
  "allowed_hit f v =
     (case (f_only f, v) of
        (Some vs, JStr s) \<Rightarrow> s \<in> set vs
      | _ \<Rightarrow> False)"

definition base_error :: "field_schema \<Rightarrow> jsval \<Rightarrow> string option" where
  "base_error f v =
     (case (f_type f, v) of
        (TString, JStr s) \<Rightarrow> if s = [] then Some ''string.empty'' else None
      | (TString, _) \<Rightarrow> Some ''string.base''
      | (TNumber, JNum q) \<Rightarrow> if \<bar>q\<bar> > 9007199254740991 then Some ''number.unsafe'' else None
      | (TNumber, _) \<Rightarrow> Some ''number.base''
      | (TDate, JDate t) \<Rightarrow> None
      | (TDate, _) \<Rightarrow> Some ''date.base'')"

text \<open>Whether a value of the schema's type satisfies a rule; a rule says nothing of other values.\<close>

definition rule_ok :: "joi_env \<Rightarrow> rule \<Rightarrow> jsval \<Rightarrow> bool" where
  "rule_ok env r v =
     (case (r, v) of
        (Min n, JStr s) \<Rightarrow> n \<le> int (length s)
      | (Min n, JNum q) \<Rightarrow> of_int n \<le> q
      | (Max n, JStr s) \<Rightarrow> int (length s) \<le> n
      | (Max n, JNum q) \<Rightarrow> q \<le> of_int n
      | (Email, JStr s) \<Rightarrow> is_email env s
      | (Pattern p, JStr s) \<Rightarrow> p s
      | (Integer, JNum q) \<Rightarrow> of_int \<lfloor>q\<rfloor> = q
      | _ \<Rightarrow> True)"

definition rule_code :: "jtype \<Rightarrow> rule \<Rightarrow> string" where
  "rule_code t r =
     (case r of
        Min n \<Rightarrow> (if t = TNumber then ''number.min'' else ''string.min'')
      | Max n \<Rightarrow> (if t = TNumber then ''number.max'' else ''string.max'')
      | Email \<Rightarrow> ''string.email''
      | Pattern p \<Rightarrow> ''string.pattern.base''
      | Integer \<Rightarrow> ''number.integer'')"

definition lookup :: "(string \<times> jsval) list \<Rightarrow> string \<Rightarrow> jsval" where
  "lookup kvs k = (case map_of kvs k of None \<Rightarrow> JUndefined | Some v \<Rightarrow> v)"

text \<open>The messages one key contributes when nothing stops the validation early.\<close>

definition field_errors :: "joi_env \<Rightarrow> field_schema \<Rightarrow> jsval \<Rightarrow> string list" where
  "field_errors env f raw =
     (if raw = JUndefined then (if f_required f then [msg_of f ''any.required''] else [])
      else
        (let v = coerce env f raw in
         if allowed_hit f v then []
         else (if f_only f = None then [] else [msg_of f ''any.only''])
              @ (case base_error f v of
                   Some code \<Rightarrow> [msg_of f code]
                 | None \<Rightarrow>
                     map (\<lambda>r. msg_of f (rule_code (f_type f) r))
                       (filter (\<lambda>r. \<not> rule_ok env r v) (f_rules f)))))"

definition field_value :: "joi_env \<Rightarrow> field_schema \<Rightarrow> jsval \<Rightarrow> jsval" where
  "field_value env f raw =
     (if raw = JUndefined then (case f_default f of None \<Rightarrow> JUndefined | Some d \<Rightarrow> d)
      else coerce env f raw)"

record validation_result =
  v_error :: "string list"
  v_value :: jsval

text \<open>
  \<open>schema.validate(data, { abortEarly })\<close> for an object schema with the given keys.
  \<open>v_error\<close> lists \<open>error.details.map(detail => detail.message)\<close>; it is empty when
  \<open>error\<close> is undefined. The input is read, never written: the result's value is a
  value of its own.
\<close>

definition validate :: "joi_env \<Rightarrow> bool \<Rightarrow> field_schema list \<Rightarrow> jsval \<Rightarrow> validation_result" where
  "validate env abortEarly sch data_in =
     (case data_in of
        JUndefined \<Rightarrow> \<lparr>v_error = [], v_value = JUndefined\<rparr>
      | JObj kvs \<Rightarrow>
          (let found = concat (map (\<lambda>f. field_errors env f (lookup kvs (f_key f))) sch)
                 @ map (\<lambda>kv. default_message (fst kv) ''object.unknown'')
                     (filter (\<lambda>kv. fst kv \<notin> set (map f_key sch)) kvs);
               out = filter (\<lambda>kv. snd kv \<noteq> JUndefined)
                       (map (\<lambda>f. (f_key f, field_value env f (lookup kvs (f_key f)))) sch)
                 @ filter (\<lambda>kv. fst kv \<notin> set (map f_key sch)) kvs
           in \<lparr>v_error = (if abortEarly then take 1 found else found), v_value = JObj out\<rparr>)
      | _ \<Rightarrow> \<lparr>v_error = [default_message ''value'' ''object.base''], v_value = data_in\<rparr>)"


subsection \<open>The schemas\<close>


definition noticeSchema :: "field_schema list" where
  "noticeSchema =
     [\<lparr>f_key = ''title'', f_type = TString, f_trim = True, f_required = True, f_only = None,
       f_default = None, f_rules = [Min 3, Max 200],
       f_messages = [(''string.min'', ''Title must be at least 3 characters long''),
                     (''string.max'', ''Title cannot exceed 200 characters''),
                     (''any.required'', ''Title is required'')]\<rparr>,
      \<lparr>f_key = ''description'', f_type = TString, f_trim = True, f_required = True, f_only = None,
       f_default = None, f_rules = [Min 10, Max 2000],
       f_messages = [(''string.min'', ''Description must be at least 10 characters long''),
                     (''string.max'', ''Description cannot exceed 2000 characters''),
                     (''any.required'', ''Description is required'')]\<rparr>,
      \<lparr>f_key = ''date'', f_type = TDate, f_trim = False, f_required = False, f_only = None,
       f_default = None, f_rules = [],
       f_messages = [(''date.base'', ''Please provide a valid date'')]\<rparr>]"








subsection \<open>The helpers\<close>


definition validateNotice :: "joi_env \<Rightarrow> jsval \<Rightarrow> validation_result" where
  "validateNotice env data_in = validate env False noticeSchema data_in"




subsection \<open>The messages a helper returns, stated key by key\<close>

text \<open>
  The amended claim, in its own words: what each helper returns for an object, written
  per kind of key and without reference to the validation above, to be compared with it.
\<close>













section \<open>The state: the document store, the remote storage and the local disk\<close>

text \<open>
  A Gallery document (\<open>gallerySchema\<close>, with \<open>timestamps\<close>): the image reference
  is required, the description is optional.
\<close>

record gallery_image =
  i_url :: string
  i_publicId :: "string option"
  i_format :: "string option"
  i_size :: "nat option"
  i_width :: "nat option"
  i_height :: "nat option"

record gallery_item =
  g_id :: string
  g_title :: string
  g_description :: "string option"
  g_image :: gallery_image
  g_category :: string
  g_date :: int
  g_uploadedBy :: string
  g_createdAt :: int
  g_updatedAt :: int

text \<open>
  \<open>w_cloud\<close> lists the public ids of the objects the remote storage holds, \<open>w_disk\<close>
  the paths of the files on the local disk.
\<close>

record world =
  w_notices :: "notice list"
  w_gallery :: "gallery_item list"
  w_cloud :: "string list"
  w_disk :: "string list"

text \<open>\<open>req.file\<close> as multer's memory storage leaves it.\<close>

record upload_file =
  fl_originalname :: string
  fl_mimetype :: string
  fl_size :: nat
  fl_buffer :: string

text \<open>What \<open>uploadToCloudinary\<close> resolves to.\<close>

record cloudinary_result =
  c_url :: string
  c_publicId :: string
  c_format :: string
  c_bytes :: nat
  c_width :: "nat option"
  c_height :: "nat option"
  c_resourceType :: string

datatype destroy_outcome = DestroyOk | DestroyNotFound | DestroyRejects js_error

text \<open>
  What the handler cannot decide by itself, for one request: the clock, the identifier
  the store gives a new document, whether the upload to the remote storage resolves (and
  to what), how the remote \<open>destroy\<close> ends, and whether the store accepts a write.
\<close>

record outcome =
  o_now :: int
  o_new_id :: string
  o_upload :: "cloudinary_result option"
  o_destroy :: destroy_outcome
  o_db_ok :: bool

definition mongo_error :: js_error where
  "mongo_error =
     \<lparr>e_class = MongoServerError, e_message = ''store unavailable'', e_statusCode = None,
      e_code = None, e_errors = [], e_keyValue = []\<rparr>"

definition validation_error :: "string list \<Rightarrow> js_error" where
  "validation_error msgs =
     \<lparr>e_class = ValidationError, e_message = ''Validation failed'', e_statusCode = None,
      e_code = None, e_errors = msgs, e_keyValue = []\<rparr>"

section \<open>The Notice model: validators and the pre-save hook\<close>

definition backquoted :: "string \<Rightarrow> string" where
  "backquoted k = [CHR 0x60] @ k @ [CHR 0x60]"

text \<open>The message of a \<open>required: true\<close> that names no message of its own.\<close>

definition path_required :: "string \<Rightarrow> string" where
  "path_required p = ''Path '' @ backquoted p @ '' is required.''"

text \<open>
  The validators of \<open>noticeSchema\<close>'s paths (required, minlength, maxlength), after
  the trim setter, and those of \<open>attachmentSchema\<close>: \<open>filename\<close>,
  \<open>originalName\<close>, \<open>path\<close>, \<open>size\<close> and \<open>mimeType\<close> are required (a size
  is always there), and a required string is not empty. A field the schema does not
  declare has no validator.
\<close>

definition title_validators :: "string \<Rightarrow> string list" where
  "title_validators t =
     (if t = [] then [''Notice title is required'']
      else if length t < 3 then [''Title must be at least 3 characters long'']
      else if length t > 200 then [''Title cannot exceed 200 characters'']
      else [])"

definition description_validators :: "string \<Rightarrow> string list" where
  "description_validators d =
     (if d = [] then [''Notice description is required'']
      else if length d < 10 then [''Description must be at least 10 characters long'']
      else if length d > 2000 then [''Description cannot exceed 2000 characters'']
      else [])"

definition attachment_validators :: "attachment \<Rightarrow> string list" where
  "attachment_validators att =
     (if a_filename att = [] then [path_required ''filename''] else [])
     @ (if a_originalName att = [] then [path_required ''originalName''] else [])
     @ (case a_path att of
          None \<Rightarrow> [path_required ''path'']
        | Some p \<Rightarrow> if p = [] then [path_required ''path''] else [])
     @ (if a_mimeType att = [] then [path_required ''mimeType''] else [])"

definition notice_validators :: "notice \<Rightarrow> string list" where
  "notice_validators doc =
     title_validators (n_title doc) @ description_validators (n_description doc)
     @ (case n_attachment doc of None \<Rightarrow> [] | Some att \<Rightarrow> attachment_validators att)"

text \<open>\<open>noticeSchema.pre('save')\<close>: a date more than thirty days after now is an error.\<close>

definition noticePreSave :: "int \<Rightarrow> notice \<Rightarrow> js_error option" where
  "noticePreSave now doc =
     (let maxFutureDate = now + 30 * 24 * 60 * 60 * 1000
      in if n_date doc > maxFutureDate
         then Some (new_Error ''Notice date cannot be more than 30 days in the future'')
         else None)"

text \<open>
  \<open>notice.save()\<close> of a new document: the validators, the pre-save hook, then the
  write. \<open>Notice.findByIdAndUpdate(id, update, { new: true, runValidators: true })\<close>
  is a query: it runs the validators of the paths it sets and writes; a hook registered
  for \<open>save\<close> is not part of it.
\<close>

definition Notice_save :: "outcome \<Rightarrow> notice \<Rightarrow> notice list \<Rightarrow> js_error + notice list" where
  "Notice_save oc doc store =
     (if notice_validators doc \<noteq> [] then Inl (validation_error (notice_validators doc))
      else case noticePreSave (o_now oc) doc of
             Some err \<Rightarrow> Inl err
           | None \<Rightarrow> if o_db_ok oc then Inr (store @ [doc]) else Inl mongo_error)"

text \<open>\<open>updateData\<close>: the paths an update sets; the attachment only when a file came.\<close>

record notice_update =
  u_title :: string
  u_description :: string
  u_date :: int
  u_updatedBy :: string
  u_updatedAt :: int
  u_attachment :: "attachment option"

definition apply_update :: "notice_update \<Rightarrow> notice \<Rightarrow> notice" where
  "apply_update u d =
     d\<lparr>n_title := u_title u, n_description := u_description u, n_date := u_date u,
       n_updatedBy := u_updatedBy u, n_updatedAt := u_updatedAt u,
       n_attachment := (case u_attachment u of None \<Rightarrow> n_attachment d | Some att \<Rightarrow> Some att)\<rparr>"

definition update_validators :: "notice_update \<Rightarrow> string list" where
  "update_validators u =
     title_validators (u_title u) @ description_validators (u_description u)
     @ (case u_attachment u of None \<Rightarrow> [] | Some att \<Rightarrow> attachment_validators att)"

definition Notice_findByIdAndUpdate ::
  "outcome \<Rightarrow> string \<Rightarrow> notice_update \<Rightarrow> notice list \<Rightarrow> js_error + notice list" where
  "Notice_findByIdAndUpdate oc ident u store =
     (if \<not> isObjectId ident then Inl cast_error
      else if update_validators u \<noteq> [] then Inl (validation_error (update_validators u))
      else if o_db_ok oc
      then Inr (map (\<lambda>d. if n_id d = map lower_hex ident then apply_update u d else d) store)
      else Inl mongo_error)"

definition str_of :: "jsval \<Rightarrow> string" where
  "str_of v = (case v of JStr s \<Rightarrow> s | _ \<Rightarrow> [])"

text \<open>\<open>date ? new Date(date) : fallback\<close> on a validated value: the date is a Date or absent.\<close>

definition date_or :: "jsval \<Rightarrow> int \<Rightarrow> int" where
  "date_or v fallback = (case v of JDate t \<Rightarrow> t | _ \<Rightarrow> fallback)"

definition temp_path :: "outcome \<Rightarrow> upload_file \<Rightarrow> string" where
  "temp_path oc fl = ''uploads/temp_'' @ dec (nat (o_now oc)) @ ''_'' @ fl_originalname fl"

definition cloud_attachment :: "upload_file \<Rightarrow> cloudinary_result \<Rightarrow> attachment" where
  "cloud_attachment fl cr =
     \<lparr>a_filename = fl_originalname fl, a_originalName = fl_originalname fl, a_path = None,
      a_url = Some (c_url cr), a_publicId = Some (c_publicId cr), a_size = fl_size fl,
      a_mimeType = fl_mimetype fl, a_format = Some (c_format cr),
      a_resourceType = Some (c_resourceType cr), a_width = c_width cr, a_height = c_height cr\<rparr>"

section \<open>Creating a notice: \<open>NoticeController.createNotice\<close>\<close>

definition validation_failed :: "string list \<Rightarrow> 'a response" where
  "validation_failed msgs =
     \<lparr>status = 400, success = False, message = ''Validation error'', errors = msgs, data = None\<rparr>"

text \<open>
  The end of the handler: \<open>new Notice(noticeData)\<close>, \<open>save()\<close> and the 201 answer.
  A failed save is thrown to the handler's outer \<open>catch\<close>, which logs the error and
  answers 500; the state is as it was before the save.
\<close>

definition save_new_notice :: "outcome \<Rightarrow> notice \<Rightarrow> world \<Rightarrow> notice response \<times> world" where
  "save_new_notice oc doc w =
     (case Notice_save oc doc (w_notices w) of
        Inl err \<Rightarrow> (fail 500 ''Internal server error while creating notice'', w)
      | Inr ns \<Rightarrow> (ok 201 ''Notice created successfully'' doc, w\<lparr>w_notices := ns\<rparr>))"

definition new_notice ::
  "outcome \<Rightarrow> admin_context \<Rightarrow> (string \<times> jsval) list \<Rightarrow> attachment option \<Rightarrow> notice" where
  "new_notice oc adm vals att =
     \<lparr>n_id = o_new_id oc, n_title = str_of (lookup vals ''title''),
      n_description = str_of (lookup vals ''description''),
      n_date = date_or (lookup vals ''date'') (o_now oc), n_attachment = att,
      n_createdBy = ctx_adminId adm, n_updatedBy = ctx_adminId adm, n_isActive = True,
      n_createdAt = o_now oc, n_updatedAt = o_now oc\<rparr>"

text \<open>
  The handler (\<open>controllers/noticeController.ts\<close>). An uploaded file is in memory:
  it is written to a temporary file, uploaded, and the temporary file is unlinked; a
  failed upload is answered by the inner \<open>catch\<close>. A validated body that is
  \<open>undefined\<close> cannot be destructured, which the outer \<open>catch\<close> answers.
\<close>

definition createNotice ::
  "joi_env \<Rightarrow> outcome \<Rightarrow> admin_context \<Rightarrow> jsval \<Rightarrow> upload_file option \<Rightarrow> world
     \<Rightarrow> notice response \<times> world" where
  "createNotice env oc adm body file w =
     (let r = validateNotice env body in
      if v_error r \<noteq> [] then (validation_failed (v_error r), w)
      else
        (case v_value r of
           JObj vals \<Rightarrow>
             (case file of
                None \<Rightarrow> save_new_notice oc (new_notice oc adm vals None) w
              | Some fl \<Rightarrow>
                  (let tempFilePath = temp_path oc fl;
                       w1 = w\<lparr>w_disk := tempFilePath # w_disk w\<rparr>
                   in case o_upload oc of
                        None \<Rightarrow> (fail 500 ''Failed to upload file to cloud storage'', w1)
                      | Some cr \<Rightarrow>
                          (let w2 = w1\<lparr>w_cloud := c_publicId cr # w_cloud w1,
                                        w_disk := remove1 tempFilePath (w_disk w1)\<rparr>
                           in save_new_notice oc
                                (new_notice oc adm vals (Some (cloud_attachment fl cr))) w2)))
         | _ \<Rightarrow> (fail 500 ''Internal server error while creating notice'', w)))"

section \<open>Updating a notice: \<open>NoticeController.updateNotice\<close>\<close>

text \<open>
  \<open>deleteFromCloudinary\<close>: \<open>destroy\<close> in a \<open>try\<close>; the answer is whether the
  provider said \<open>ok\<close>, and a rejection is logged and answered \<open>false\<close>.
\<close>

definition deleteFromCloudinary :: "outcome \<Rightarrow> string \<Rightarrow> world \<Rightarrow> bool \<times> world" where
  "deleteFromCloudinary oc publicId w =
     (case o_destroy oc of
        DestroyOk \<Rightarrow> (True, w\<lparr>w_cloud := removeAll publicId (w_cloud w)\<rparr>)
      | DestroyNotFound \<Rightarrow> (False, w)
      | DestroyRejects err \<Rightarrow> (False, w))"

text \<open>\<open>attachment?.publicId\<close> as a condition: present and not empty.\<close>

definition attached_publicId :: "notice \<Rightarrow> string option" where
  "attached_publicId n =
     (case n_attachment n of
        None \<Rightarrow> None
      | Some att \<Rightarrow> (case a_publicId att of None \<Rightarrow> None | Some pid \<Rightarrow> if pid = [] then None else Some pid))"

definition updateNotice ::
  "joi_env \<Rightarrow> outcome \<Rightarrow> admin_context \<Rightarrow> string \<Rightarrow> jsval \<Rightarrow> upload_file option \<Rightarrow> world
     \<Rightarrow> notice response \<times> world" where
  "updateNotice env oc adm ident body file w =
     (case findById n_id (w_notices w) ident of
        Inl err \<Rightarrow> (fail 500 ''Internal server error while updating notice'', w)
      | Inr None \<Rightarrow> (fail 404 ''Notice not found'', w)
      | Inr (Some existingNotice) \<Rightarrow>
          (let r = validateNotice env body in
           if v_error r \<noteq> [] then (validation_failed (v_error r), w)
           else
             (case v_value r of
                JObj vals \<Rightarrow>
                  (let updateData =
                         \<lparr>u_title = str_of (lookup vals ''title''),
                          u_description = str_of (lookup vals ''description''),
                          u_date = date_or (lookup vals ''date'') (n_date existingNotice),
                          u_updatedBy = ctx_adminId adm,
                          u_updatedAt = o_now oc,
                          u_attachment = None\<rparr>;
                       finish = (\<lambda>u w'.
                         case Notice_findByIdAndUpdate oc ident u (w_notices w') of
                           Inl err \<Rightarrow> (fail 500 ''Internal server error while updating notice'', w')
                         | Inr ns \<Rightarrow>
                             (ok 200 ''Notice updated successfully'' (apply_update u existingNotice),
                              w'\<lparr>w_notices := ns\<rparr>))
                   in case file of
                        None \<Rightarrow> finish updateData w
                      | Some fl \<Rightarrow>
                          (let w0 = (case attached_publicId existingNotice of
                                       None \<Rightarrow> w
                                     | Some pid \<Rightarrow> snd (deleteFromCloudinary oc pid w));
                               tempFilePath = temp_path oc fl;
                               w1 = w0\<lparr>w_disk := tempFilePath # w_disk w0\<rparr>
                           in case o_upload oc of
                                None \<Rightarrow> (fail 500 ''Failed to upload file to cloud storage'', w1)
                              | Some cr \<Rightarrow>
                                  (let w2 = w1\<lparr>w_cloud := c_publicId cr # w_cloud w1,
                                                w_disk := remove1 tempFilePath (w_disk w1)\<rparr>
                                   in finish (updateData\<lparr>u_attachment :=
                                                 Some (cloud_attachment fl cr)\<rparr>) w2)))
              | _ \<Rightarrow> (fail 500 ''Internal server error while updating notice'', w))))"

section \<open>Deleting: \<open>NoticeController.deleteNotice\<close> and \<open>deleteGalleryImage\<close>\<close>

text \<open>
  The notice handler wraps the remote deletion in a \<open>try\<close> of its own (and
  \<open>deleteFromCloudinary\<close> rejects nothing), then deletes the record.
\<close>

definition deleteNotice :: "outcome \<Rightarrow> string \<Rightarrow> world \<Rightarrow> (string \<times> string) response \<times> world" where
  "deleteNotice oc ident w =
     (case findById n_id (w_notices w) ident of
        Inl err \<Rightarrow> (fail 500 ''Internal server error while deleting notice'', w)
      | Inr None \<Rightarrow> (fail 404 ''Notice not found'', w)
      | Inr (Some n) \<Rightarrow>
          (let w1 = (case attached_publicId n of
                       None \<Rightarrow> w
                     | Some pid \<Rightarrow> snd (deleteFromCloudinary oc pid w))
           in if o_db_ok oc
              then (ok 200 ''Notice deleted successfully'' (n_id n, n_title n),
                    w1\<lparr>w_notices := filter (\<lambda>d. n_id d \<noteq> n_id n) (w_notices w1)\<rparr>)
              else (fail 500 ''Internal server error while deleting notice'', w1)))"

text \<open>
  The gallery handlers are wrapped in \<open>asyncHandler\<close>: whatever they throw, and
  whatever promise they await rejects with, goes to \<open>errorHandler\<close>. The gallery
  handler awaits \<open>cloudinaryUtils.delete\<close>, which is the provider's \<open>destroy\<close> itself,
  with no \<open>try\<close> around it.
\<close>

definition deleteGalleryImage :: "outcome \<Rightarrow> string \<Rightarrow> world \<Rightarrow> unit response \<times> world" where
  "deleteGalleryImage oc ident w =
     (case findById g_id (w_gallery w) ident of
        Inl err \<Rightarrow> (errorHandler err, w)
      | Inr None \<Rightarrow> (errorHandler (new_Error ''Image not found''), w)
      | Inr (Some img) \<Rightarrow>
          (case (case i_publicId (g_image img) of
                   None \<Rightarrow> Inr w
                 | Some publicId \<Rightarrow>
                     (case o_destroy oc of
                        DestroyOk \<Rightarrow> Inr (w\<lparr>w_cloud := removeAll publicId (w_cloud w)\<rparr>)
                      | DestroyNotFound \<Rightarrow> Inr w
                      | DestroyRejects err \<Rightarrow> Inl err)) of
             Inl err \<Rightarrow> (errorHandler err, w)
           | Inr w1 \<Rightarrow>
               if o_db_ok oc
               then (\<lparr>status = 200, success = True, message = ''Image deleted successfully'',
                      errors = [], data = None\<rparr>,
                     w1\<lparr>w_gallery := filter (\<lambda>g. g_id g \<noteq> g_id img) (w_gallery w1)\<rparr>)
               else (errorHandler mongo_error, w1)))"

section \<open>Updating a gallery item: \<open>updateGalleryImage\<close>\<close>

text \<open>
  What the handler leaves to the runtime: the text of a number, and the time value
  \<open>new Date(v).getTime()\<close> of a body value (\<open>None\<close> when it is NaN).
\<close>

record js_env =
  numToString :: "rat \<Rightarrow> string"
  newDate :: "jsval \<Rightarrow> int option"

text \<open>
  The cast of the model's String paths: a string is itself, a number and a boolean are
  their text, a document is its string \<open>_id\<close>; arrays and plain objects are a
  \<open>CastError\<close>, here \<open>None\<close>. A parsed body holds no Date.
\<close>

definition castString :: "js_env \<Rightarrow> jsval \<Rightarrow> string option" where
  "castString je v =
     (case v of
        JStr s \<Rightarrow> Some s
      | JNum q \<Rightarrow> Some (numToString je q)
      | JBool b \<Rightarrow> Some (if b then ''true'' else ''false'')
      | JObj kvs \<Rightarrow> (case lookup kvs ''_id'' of
                      JStr s \<Rightarrow> if s = [] then None else Some s
                    | _ \<Rightarrow> None)
      | _ \<Rightarrow> None)"

definition gallery_categories :: "string list" where
  "gallery_categories =
     [''College Events'', ''Workshops & Seminars'', ''Campus Tour'', ''Technical Competitions'',
      ''Sports & Cultural'']"

text \<open>The validators \<open>save()\<close> runs on a gallery document: the required paths and the enum.\<close>

definition gallery_validators :: "gallery_item \<Rightarrow> string list" where
  "gallery_validators doc =
     (if g_title doc = [] then [''Path '' @ backquoted ''title'' @ '' is required.''] else [])
     @ (if g_category doc = [] then [''Path '' @ backquoted ''category'' @ '' is required.'']
        else if g_category doc \<notin> set gallery_categories
        then [backquoted (g_category doc) @ '' is not a valid enum value for path ''
              @ backquoted ''category'' @ ''.'']
        else [])"

text \<open>
  The handler. \<open>image.x = x || image.x\<close> keeps the stored value for a falsy \<open>x\<close>;
  a value that cannot be cast, or a document the validators refuse, makes \<open>save()\<close>
  reject and nothing is written. A truthy date that is no date is thrown after the
  assignments, before the save. \<open>save()\<close> of a document with no modified path writes
  nothing; otherwise the timestamps plugin sets \<open>updatedAt\<close>.
\<close>

definition updateGalleryImage ::
  "js_env \<Rightarrow> outcome \<Rightarrow> string \<Rightarrow> (string \<times> jsval) list \<Rightarrow> world
     \<Rightarrow> gallery_item response \<times> world" where
  "updateGalleryImage je oc ident body w =
     (case findById g_id (w_gallery w) ident of
        Inl err \<Rightarrow> (errorHandler err, w)
      | Inr None \<Rightarrow> (errorHandler (new_Error ''Image not found''), w)
      | Inr (Some img) \<Rightarrow>
          (let title = lookup body ''title'';
               description = lookup body ''description'';
               category = lookup body ''category'';
               date = lookup body ''date'';
               title' = (if truthy title then castString je title else Some (g_title img));
               description' = (if truthy description then map_option Some (castString je description)
                               else Some (g_description img));
               category' = (if truthy category then map_option trim (castString je category)
                            else Some (g_category img));
               date' = (if truthy date then newDate je date else Some (g_date img))
           in case date' of
                None \<Rightarrow> (errorHandler (new_Error ''Invalid date format''), w)
              | Some dt \<Rightarrow>
                  (case (title', description', category') of
                     (Some t, Some d, Some c) \<Rightarrow>
                       (let doc = img\<lparr>g_title := t, g_description := d, g_category := c,
                                        g_date := dt\<rparr>
                        in if gallery_validators doc \<noteq> []
                           then (errorHandler (validation_error (gallery_validators doc)), w)
                           else if doc = img
                           then (ok 200 ''Image updated successfully'' img, w)
                           else if o_db_ok oc
                           then (ok 200 ''Image updated successfully'' (doc\<lparr>g_updatedAt := o_now oc\<rparr>),
                                 w\<lparr>w_gallery :=
                                     map (\<lambda>g. if g_id g = g_id img
                                              then doc\<lparr>g_updatedAt := o_now oc\<rparr> else g)
                                       (w_gallery w)\<rparr>)
                           else (errorHandler mongo_error, w))
                   | _ \<Rightarrow> (errorHandler (validation_error [''Cast to string failed'']), w))))"


section \<open>Sample data\<close>

text \<open>Documents numbered by a natural number.\<close>

definition sample_id :: "nat \<Rightarrow> string" where
  "sample_id i = replicate (24 - length (dec i)) (CHR ''0'') @ dec i"

definition sample_notice :: "nat \<Rightarrow> notice" where
  "sample_notice i =
     \<lparr>n_id = sample_id i, n_title = ''Notice '' @ dec i,
      n_description = ''Description of notice '' @ dec i,
      n_date = 1700000000000 + int i * 86400000, n_attachment = None,
      n_createdBy = sample_id 0, n_updatedBy = sample_id 0, n_isActive = True,
      n_createdAt = 1700000000000 + int i * 86400000,
      n_updatedAt = 1700000000000 + int i * 86400000\<rparr>"

definition sample_admin :: admin where
  "sample_admin =
     \<lparr>ad_id = sample_id 0, ad_name = ''Asha'', ad_email = ''asha@example.org'',
      ad_password = ''$2a$12$hash'', ad_role = ''admin'', ad_isActive = True,
      ad_lastLogin = None\<rparr>"

definition sample_payload :: JwtPayload where
  "sample_payload = \<lparr>adminId = sample_id 0, email = ''asha@example.org'', role = ''admin''\<rparr>"

text \<open>
  A sample setting of the library's parsers: the email check asks for an at sign, and
  one date text and two number texts are known.
\<close>

definition sample_env :: joi_env where
  "sample_env =
     \<lparr>is_email = (\<lambda>s. CHR ''@'' \<in> set s),
      number_of_string = (\<lambda>s. if s = ''0.5'' then Some (1 / 2) else if s = ''250'' then Some 250 else None),
      date_of_string = (\<lambda>s. if s = ''2030-01-01T00:00:00.000Z'' then Some 1893456000000 else None)\<rparr>"




text \<open>
  A sample request setting: the clock stands at 14 November 2023, the upload resolves,
  the remote deletion answers ok and the store accepts writes. The date text known to
  \<open>sample_env\<close> is 1 January 2030, more than thirty days after the clock.
\<close>

definition sample_ctx :: admin_context where
  "sample_ctx =
     \<lparr>ctx_adminId = sample_id 0, ctx_email = ''asha@example.org'', ctx_name = ''Asha'',
      ctx_role = ''admin''\<rparr>"

definition sample_file :: upload_file where
  "sample_file =
     \<lparr>fl_originalname = ''timetable.pdf'', fl_mimetype = ''application/pdf'', fl_size = 2048,
      fl_buffer = ''%PDF-1.4''\<rparr>"

definition sample_upload :: cloudinary_result where
  "sample_upload =
     \<lparr>c_url = ''https://res.cloudinary.com/demo/raw/upload/notice_1700000000000_k3x9qa.pdf'',
      c_publicId = ''hitech-institute/notices/notice_1700000000000_k3x9qa'',
      c_format = ''pdf'', c_bytes = 2048, c_width = None, c_height = None,
      c_resourceType = ''raw''\<rparr>"

definition sample_outcome :: outcome where
  "sample_outcome =
     \<lparr>o_now = 1700000000000, o_new_id = sample_id 99, o_upload = Some sample_upload,
      o_destroy = DestroyOk, o_db_ok = True\<rparr>"

definition sample_gallery_item :: gallery_item where
  "sample_gallery_item =
     \<lparr>g_id = sample_id 5, g_title = ''Annual day'', g_description = Some ''Prize distribution'',
      g_image = \<lparr>i_url = ''https://res.cloudinary.com/demo/image/upload/annual.jpg'',
                 i_publicId = Some ''hitech-institute/gallery/annual'', i_format = Some ''jpg'',
                 i_size = Some 120000, i_width = Some 1200, i_height = Some 800\<rparr>,
      g_category = ''College Events'', g_date = 1690000000000, g_uploadedBy = sample_id 0,
      g_createdAt = 1690000000000, g_updatedAt = 1690000000000\<rparr>"

definition sample_world :: world where
  "sample_world =
     \<lparr>w_notices = [sample_notice 2], w_gallery = [sample_gallery_item],
      w_cloud = [''hitech-institute/gallery/annual''], w_disk = []\<rparr>"

definition future_body :: jsval where
  "future_body =
     JObj [(''title'', JStr ''Exam schedule''),
           (''description'', JStr ''The exam schedule is out.''),
           (''date'', JStr ''2030-01-01T00:00:00.000Z'')]"

definition sample_js_env :: js_env where
  "sample_js_env =
     \<lparr>numToString = (\<lambda>q. (if q < 0 then ''-'' else '''') @ dec (nat \<lfloor>\<bar>q\<bar>\<rfloor>)),
      newDate = (\<lambda>v. case v of JNum q \<Rightarrow> date_of_number q | _ \<Rightarrow> None)\<rparr>"

definition clearing_body :: "(string \<times> jsval) list" where
  "clearing_body =
     [(''title'', JStr ''''), (''description'', JStr ''''), (''category'', JStr ''Campus Tour'')]"


definition timeout_error :: js_error where
  "timeout_error = new_Error ''connect ETIMEDOUT''"

section \<open>Properties\<close>

subsection \<open>The sample identifiers\<close>

lemma isObjectId_sample_id: "i < 10 \<Longrightarrow> isObjectId (sample_id i)"
  by (simp add: isObjectId_def sample_id_def is_digit_def digit_of_def list_all_iff)

lemma lower_hex_sample_id: "i < 10 \<Longrightarrow> map lower_hex (sample_id i) = sample_id i"
  by (simp add: sample_id_def lower_hex_def)

lemma n_id_sample_notice: "n_id (sample_notice i) = sample_id i"
  by (simp add: sample_notice_def)

subsection \<open>Listing notices\<close>

lemma to_double_small: "\<bar>n\<bar> < 2 ^ 53 \<Longrightarrow> to_double n = Whole n"
  by (auto simp: to_double_def Let_def)

lemma bits_le: "bits n \<le> k \<longleftrightarrow> n < 2 ^ k"
proof (induction k arbitrary: n)
  case 0
  show ?case by (subst bits.simps) simp
next
  case (Suc k)
  have "bits n \<le> Suc k \<longleftrightarrow> n = 0 \<or> bits (n div 2) \<le> k"
    by (subst bits.simps) simp
  also have "\<dots> \<longleftrightarrow> n = 0 \<or> n div 2 < 2 ^ k"
    by (simp only: Suc.IH)
  also have "\<dots> \<longleftrightarrow> n < 2 ^ Suc k"
    by auto
  finally show ?case .
qed

lemma bits_eq: "2 ^ k \<le> n \<Longrightarrow> n < 2 ^ Suc k \<Longrightarrow> bits n = Suc k"
  using bits_le [of n "Suc k"] bits_le [of n k] by simp

lemma parseInt_2: "parseInt ''2'' = Whole 2"
  by (simp add: parseInt_def is_ws_def is_digit_def digit_of_def digits_value_def
      to_double_small)

lemma parseInt_10: "parseInt ''10'' = Whole 10"
  by (simp add: parseInt_def is_ws_def is_digit_def digit_of_def digits_value_def
      to_double_small)

lemma parseInt_rounds_above_2_53: "parseInt ''9007199254740993'' = Whole 9007199254740992"
proof -
  have "bits 9007199254740993 = Suc 53"
    by (rule bits_eq) simp_all
  then have b: "bits 9007199254740993 - 53 = 1"
    by simp
  have v: "digits_value 10 ''9007199254740993'' = 9007199254740993"
    by (simp add: digits_value_def digit_of_def)
  have "to_double 9007199254740993 = Whole 9007199254740992"
    unfolding to_double_def Let_def by (simp add: b)
  then show ?thesis
    by (simp add: parseInt_def is_ws_def is_digit_def digit_of_def v)
qed

lemma math_ceil_div_int: "math_ceil_div a b = - ((- a) div b)"
proof -
  have "\<lceil>(of_int a :: rat) / of_int b\<rceil> = - \<lfloor>(of_int (- a) :: rat) / of_int b\<rfloor>"
    by (simp add: ceiling_def)
  also have "\<dots> = - ((- a) div b)"
    by (simp only: floor_divide_of_int_eq)
  finally show ?thesis by (simp add: math_ceil_div_def)
qed

lemma length_sort_notices: "length (sort_notices ns) = length ns"
  by (simp add: sort_notices_def)

text \<open>
  C9. Asking for page 2 with limit 10 of a store that holds 25 notices answers 200 with
  exactly the ten notices that follow the first ten in the sort order, and the envelope
  says three pages in all (the ceiling of 25 / 10), a next page (2 < 3) and a previous
  page (2 > 1).
\<close>

theorem getAllNotices_page2_limit10_of_25:
  assumes "length store = 25"
  shows "getAllNotices store \<lparr>q_page = Some ''2'', q_limit = Some ''10''\<rparr> =
           ok 200 ''Notices retrieved successfully''
             \<lparr>notices = take 10 (drop 10 (sort_notices store)),
              pagination =
                \<lparr>currentPage = 2, totalPages = 3, totalItems = 25, itemsPerPage = 10,
                 hasNextPage = True, hasPrevPage = True\<rparr>\<rparr>
         \<and> length (take 10 (drop 10 (sort_notices store))) = 10
         \<and> math_ceil_div (int (length store)) 10 = 3"
  using assms
  by (simp add: getAllNotices_def parse_or_def parseInt_2 parseInt_10 skip_limit_def
      math_ceil_div_int length_sort_notices to_double_small)

theorem getAllNotices_page2_limit10_of_25_witness:
  "length (map sample_notice [0..<25]) = 25
   \<and> getAllNotices (map sample_notice [0..<25]) \<lparr>q_page = Some ''2'', q_limit = Some ''10''\<rparr> =
           ok 200 ''Notices retrieved successfully''
             \<lparr>notices = take 10 (drop 10 (sort_notices (map sample_notice [0..<25]))),
              pagination =
                \<lparr>currentPage = 2, totalPages = 3, totalItems = 25, itemsPerPage = 10,
                 hasNextPage = True, hasPrevPage = True\<rparr>\<rparr>
   \<and> length (take 10 (drop 10 (sort_notices (map sample_notice [0..<25])))) = 10
   \<and> math_ceil_div (int (length (map sample_notice [0..<25]))) 10 = 3"
proof -
  have len: "length (map sample_notice [0..<25]) = 25" by simp
  from getAllNotices_page2_limit10_of_25 [OF len] len show ?thesis by blast
qed

lemma getAllNotices_envelope:
  assumes "getAllNotices store q = r" and "status r = 200"
  shows "\<exists>pg. data r = Some pg
           \<and> totalPages (pagination pg) = math_ceil_div (int (length store)) (itemsPerPage (pagination pg))
           \<and> hasNextPage (pagination pg) = (currentPage (pagination pg) < totalPages (pagination pg))
           \<and> hasPrevPage (pagination pg) = (currentPage (pagination pg) > 1)"
  using assms
  by (auto simp: getAllNotices_def Let_def ok_def fail_def split: option.splits jsnum.splits)

subsection \<open>The bounds of page and limit\<close>

lemma parseInt_101: "parseInt ''101'' = Whole 101"
  by (simp add: parseInt_def is_ws_def is_digit_def digit_of_def digits_value_def
      to_double_small)

text \<open>
  C8. The list handler takes page and limit from \<open>parseInt(...) || default\<close> and never
  calls \<open>validateQueryParams\<close>: the defaults are 1 and 10, but nothing bounds the
  limit. With 101 notices in the store, \<open>limit=101\<close> is answered with all 101 of
  them on one page.
\<close>

theorem getAllNotices_limit_not_bounded:
  "map_option
     (\<lambda>pg. (length (notices pg), itemsPerPage (pagination pg), currentPage (pagination pg),
            totalPages (pagination pg)))
     (data (getAllNotices (map sample_notice [0..<101]) \<lparr>q_page = None, q_limit = Some ''101''\<rparr>))
     = Some (101, 101, 1, 1)"
  by (simp add: getAllNotices_def parse_or_def parseInt_101 skip_limit_def ok_def
      length_sort_notices math_ceil_div_int Let_def to_double_small)

lemma getAllNotices_defaults:
  "map_option (\<lambda>pg. (currentPage (pagination pg), itemsPerPage (pagination pg)))
     (data (getAllNotices store \<lparr>q_page = None, q_limit = None\<rparr>)) = Some (1, 10)"
  by (simp add: getAllNotices_def parse_or_def skip_limit_def ok_def Let_def to_double_small)

subsection \<open>The authorization gate\<close>

lemma instanceof_expired: "instanceof TokenExpiredError JsonWebTokenError"
  by (simp add: instanceof_def)

lemma expired_token_answer:
  assumes "token \<noteq> []" and "verify token = Inl TokenExpiredError"
  shows "authenticateAdmin verify admins (Some token)
           = Rejected (fail 401 ''Access denied. Invalid token.'')"
  using assms by (simp add: authenticateAdmin_def instanceof_def)

lemma invalid_token_answer:
  assumes "token \<noteq> []" and "verify token = Inl JsonWebTokenError"
  shows "authenticateAdmin verify admins (Some token)
           = Rejected (fail 401 ''Access denied. Invalid token.'')"
  using assms by (simp add: authenticateAdmin_def instanceof_def)

text \<open>
  C5. A well-formed, signed and expired token makes \<open>jwt.verify\<close> throw
  \<open>TokenExpiredError\<close>, which is an instance of \<open>JsonWebTokenError\<close>: the first test of
  the \<open>catch\<close> takes it, and the gate answers 401 with the invalid-token message, the
  same answer as for a token with a bad signature. The expired-token branch is never
  reached.
\<close>

theorem expired_token_answered_as_invalid:
  "authenticateAdmin (\<lambda>t. if t = ''expired.jwt.token'' then Inl TokenExpiredError else Inl JsonWebTokenError)
     [sample_admin] (Some ''expired.jwt.token'')
     = Rejected (fail 401 ''Access denied. Invalid token.'')
   \<and> authenticateAdmin (\<lambda>t. if t = ''expired.jwt.token'' then Inl TokenExpiredError else Inl JsonWebTokenError)
     [sample_admin] (Some ''expired.jwt.token'')
     = authenticateAdmin (\<lambda>t. if t = ''expired.jwt.token'' then Inl TokenExpiredError else Inl JsonWebTokenError)
     [sample_admin] (Some ''forged.jwt.token'')
   \<and> authenticateAdmin (\<lambda>t. if t = ''expired.jwt.token'' then Inl TokenExpiredError else Inl JsonWebTokenError)
     [sample_admin] (Some ''expired.jwt.token'')
     \<noteq> Rejected (fail 401 ''Access denied. Token has expired.'')"
  by (simp add: authenticateAdmin_def instanceof_def fail_def)

text \<open>
  C6. A request whose token verifies (valid signature, not expired) and whose admin
  record, looked up in the store as it is at this request, is marked inactive is
  rejected with 401 and the deactivated-account message.
\<close>

theorem inactive_admin_rejected:
  assumes "token \<noteq> []"
    and "verify token = Inr p"
    and "findById ad_id admins (adminId p) = Inr (Some a)"
    and "\<not> ad_isActive a"
  shows "authenticateAdmin verify admins (Some token)
           = Rejected (fail 401 ''Access denied. Admin account is deactivated.'')"
  using assms by (simp add: authenticateAdmin_def)

lemma isObjectId_sample_id_0: "isObjectId (sample_id 0)"
  by (simp add: isObjectId_def sample_id_def is_digit_def digit_of_def list_all_iff)

lemma lower_hex_sample_id_0: "map lower_hex (sample_id 0) = sample_id 0"
  by (simp add: sample_id_def lower_hex_def)

theorem inactive_admin_rejected_witness:
  "''valid.jwt.token'' \<noteq> []
   \<and> (\<lambda>t. Inr sample_payload) ''valid.jwt.token'' = (Inr sample_payload :: err_class + JwtPayload)
   \<and> findById ad_id [sample_admin\<lparr>ad_isActive := False\<rparr>] (adminId sample_payload)
        = Inr (Some (sample_admin\<lparr>ad_isActive := False\<rparr>))
   \<and> \<not> ad_isActive (sample_admin\<lparr>ad_isActive := False\<rparr>)
   \<and> authenticateAdmin (\<lambda>t. Inr sample_payload) [sample_admin\<lparr>ad_isActive := False\<rparr>]
        (Some ''valid.jwt.token'')
        = Rejected (fail 401 ''Access denied. Admin account is deactivated.'')"
proof -
  have f: "findById ad_id [sample_admin\<lparr>ad_isActive := False\<rparr>] (adminId sample_payload)
             = Inr (Some (sample_admin\<lparr>ad_isActive := False\<rparr>))"
    by (simp add: findById_def sample_payload_def isObjectId_sample_id_0 lower_hex_sample_id_0
        sample_admin_def)
  have t: "''valid.jwt.token'' \<noteq> []" by simp
  have v: "(\<lambda>t. Inr sample_payload) ''valid.jwt.token'' = (Inr sample_payload :: err_class + JwtPayload)"
    by simp
  have i: "\<not> ad_isActive (sample_admin\<lparr>ad_isActive := False\<rparr>)" by simp
  from inactive_admin_rejected [OF t v f i] f show ?thesis by simp
qed

lemma find_deactivated:
  assumes "find (\<lambda>d. ad_id d = k) admins = Some a"
  shows "find (\<lambda>d. ad_id d = k) (deactivate (ad_id a) admins) = Some (a\<lparr>ad_isActive := False\<rparr>)"
  using assms by (induction admins) (auto simp: deactivate_def split: if_splits)

lemma deactivated_admin_rejected_on_next_call:
  assumes "token \<noteq> []"
    and "verify token = Inr p"
    and "findById ad_id admins (adminId p) = Inr (Some a)"
  shows "authenticateAdmin verify (deactivate (ad_id a) admins) (Some token)
           = Rejected (fail 401 ''Access denied. Admin account is deactivated.'')"
proof -
  from assms(3) have "findById ad_id (deactivate (ad_id a) admins) (adminId p)
                        = Inr (Some (a\<lparr>ad_isActive := False\<rparr>))"
    by (auto simp: findById_def find_deactivated split: if_splits)
  with assms(1,2) show ?thesis by (simp add: authenticateAdmin_def)
qed

subsection \<open>Reading one notice\<close>

lemma getNoticeById_absent:
  assumes "isObjectId ident" and "find (\<lambda>d. n_id d = map lower_hex ident) store = None"
  shows "getNoticeById store ident = fail 404 ''Notice not found''"
  using assms by (simp add: getNoticeById_def findById_def)

lemma getNoticeById_malformed:
  assumes "\<not> isObjectId ident"
  shows "getNoticeById store ident = fail 500 ''Internal server error while fetching notice''"
  using assms by (simp add: getNoticeById_def findById_def)

text \<open>
  C7. For the identifier \<open>abc\<close>, which is not well formed, the lookup rejects with a
  \<open>CastError\<close> that the handler's own \<open>catch\<close> answers with status 500; the central
  error handler, which would answer 400 for a \<open>CastError\<close>, is never called. A
  well-formed identifier with no record is answered 404.
\<close>

theorem getNoticeById_malformed_id_is_500:
  "status (getNoticeById (map sample_notice [0..<3]) ''abc'') = 500
   \<and> status (errorHandler cast_error :: unit response) = 400
   \<and> status (getNoticeById (map sample_notice [0..<3]) (sample_id 7)) = 404"
  by (simp add: getNoticeById_def findById_def isObjectId_def fail_def errorHandler_def
      cast_error_def sample_id_def sample_notice_def is_digit_def digit_of_def lower_hex_def
      upt_rec list_all_iff)


subsection \<open>Validation collects every message\<close>

lemma abort_early_is_first:
  "v_error (validate env True sch d) = take 1 (v_error (validate env False sch d))"
  by (cases d) (simp_all add: validate_def Let_def)














subsection \<open>Creating and updating a notice\<close>

lemma validateNotice_future_body:
  "validateNotice sample_env future_body =
     \<lparr>v_error = [],
      v_value = JObj [(''title'', JStr ''Exam schedule''),
                      (''description'', JStr ''The exam schedule is out.''),
                      (''date'', JDate 1893456000000)]\<rparr>"
  by (simp add: validateNotice_def noticeSchema_def future_body_def validate_def lookup_def field_errors_def field_value_def coerce_def
      allowed_hit_def base_error_def rule_ok_def rule_code_def msg_of_def default_message_def
      quoted_def trim_def is_ws_def sample_env_def)

lemma createNotice_keeps_upload_when_save_fails:
  assumes "v_error (validateNotice env body) = []"
    and "v_value (validateNotice env body) = JObj vals"
    and "o_upload oc = Some cr"
    and "Notice_save oc (new_notice oc adm vals (Some (cloud_attachment fl cr))) (w_notices w) = Inl err"
  shows "createNotice env oc adm body (Some fl) w
           = (fail 500 ''Internal server error while creating notice'',
              w\<lparr>w_cloud := c_publicId cr # w_cloud w\<rparr>)"
  using assms by (simp add: createNotice_def save_new_notice_def Let_def)

lemma attachment_validators_cloud_attachment:
  "attachment_validators (cloud_attachment fl cr) \<noteq> []"
  by (simp add: attachment_validators_def cloud_attachment_def)

lemma Notice_save_cloud_attachment:
  "\<exists>err. Notice_save oc (new_notice oc adm vals (Some (cloud_attachment fl cr))) store = Inl err"
  using attachment_validators_cloud_attachment [of fl cr]
  by (simp add: Notice_save_def notice_validators_def new_notice_def)

lemma createNotice_with_file_keeps_upload:
  assumes "v_error (validateNotice env body) = []"
    and "v_value (validateNotice env body) = JObj vals"
    and "o_upload oc = Some cr"
  shows "createNotice env oc adm body (Some fl) w
           = (fail 500 ''Internal server error while creating notice'',
              w\<lparr>w_cloud := c_publicId cr # w_cloud w\<rparr>)"
  using Notice_save_cloud_attachment [of oc adm vals fl cr "w_notices w"]
    createNotice_keeps_upload_when_save_fails [OF assms]
  by blast

text \<open>
  C1. A create request with a file and with the date 1 January 2030, while the clock
  stands in November 2023: validation passes, the file is uploaded to the remote
  storage, and the save is refused (the attachment the handler builds has no
  \<open>path\<close>, which the model's attachment schema requires, and the date is more than
  thirty days ahead, which the pre-save hook refuses). The handler's outer
  \<open>catch\<close> answers 500 and deletes nothing: the object uploaded a moment ago is still
  in the remote storage, and no notice refers to it.
\<close>

theorem createNotice_failed_save_leaves_upload:
  "createNotice sample_env sample_outcome sample_ctx future_body (Some sample_file) sample_world
     = (fail 500 ''Internal server error while creating notice'',
        sample_world\<lparr>w_cloud := c_publicId sample_upload # w_cloud sample_world\<rparr>)
   \<and> c_publicId sample_upload \<notin> set (w_cloud sample_world)"
  by (simp add: createNotice_def validateNotice_future_body save_new_notice_def Notice_save_def
      new_notice_def notice_validators_def title_validators_def description_validators_def
      attachment_validators_def cloud_attachment_def temp_path_def
      noticePreSave_def lookup_def str_of_def date_or_def
      sample_world_def sample_outcome_def sample_ctx_def sample_file_def
      sample_upload_def Let_def)

lemma findById_sample_notice_2:
  "findById n_id [sample_notice 2] (sample_id 2) = Inr (Some (sample_notice 2))"
  by (simp add: findById_def isObjectId_sample_id lower_hex_sample_id n_id_sample_notice)

text \<open>
  C4. The create path refuses a date more than thirty days ahead: the pre-save hook
  rejects the save and nothing is stored. The update path does not: it writes with
  \<open>findByIdAndUpdate\<close>, which runs no save hook, and the notice is stored with the
  date 1 January 2030 while the clock stands in November 2023.
\<close>

theorem updateNotice_stores_far_future_date:
  "status (fst (updateNotice sample_env sample_outcome sample_ctx (sample_id 2) future_body None
                  sample_world)) = 200
   \<and> map n_date (w_notices (snd (updateNotice sample_env sample_outcome sample_ctx (sample_id 2)
                                    future_body None sample_world))) = [1893456000000]
   \<and> 1893456000000 > o_now sample_outcome + 30 * 24 * 60 * 60 * 1000
   \<and> createNotice sample_env sample_outcome sample_ctx future_body None sample_world
       = (fail 500 ''Internal server error while creating notice'', sample_world)"
  by (simp add: updateNotice_def createNotice_def validateNotice_future_body save_new_notice_def
      Notice_save_def Notice_findByIdAndUpdate_def new_notice_def notice_validators_def
      update_validators_def apply_update_def title_validators_def description_validators_def
      noticePreSave_def lookup_def str_of_def date_or_def sample_world_def sample_outcome_def sample_ctx_def sample_file_def
      sample_upload_def Let_def
      findById_sample_notice_2 ok_def isObjectId_sample_id lower_hex_sample_id
      n_id_sample_notice)

lemma createNotice_rejects_far_future_date:
  assumes "v_error (validateNotice env body) = []"
    and "v_value (validateNotice env body) = JObj vals"
    and "lookup vals ''date'' = JDate t"
    and "t > o_now oc + 30 * 24 * 60 * 60 * 1000"
  shows "createNotice env oc adm body None w
           = (fail 500 ''Internal server error while creating notice'', w)"
  using assms
  by (simp add: createNotice_def save_new_notice_def Notice_save_def noticePreSave_def
      new_notice_def date_or_def Let_def new_Error_def)

subsection \<open>Deleting a record when the remote deletion fails\<close>

lemma find_filter_other: "find (\<lambda>d. f d = k) (filter (\<lambda>d. f d \<noteq> k) xs) = None"
  by (induction xs) auto

lemma deleteNotice_ignores_storage_failure:
  assumes "findById n_id (w_notices w) ident = Inr (Some n)" and "o_db_ok oc"
  shows "status (fst (deleteNotice oc ident w)) = 200
       \<and> find (\<lambda>d. n_id d = n_id n) (w_notices (snd (deleteNotice oc ident w))) = None"
  using assms
  by (auto simp: deleteNotice_def deleteFromCloudinary_def ok_def Let_def find_filter_other
      split: option.splits destroy_outcome.splits)

lemma findById_sample_gallery_item:
  "findById g_id [sample_gallery_item] (sample_id 5) = Inr (Some sample_gallery_item)"
  by (simp add: findById_def isObjectId_sample_id lower_hex_sample_id sample_gallery_item_def)

text \<open>
  C2. Deleting the sample gallery item while the remote storage cannot be reached: the
  provider's \<open>destroy\<close> rejects, the handler has no \<open>try\<close> around it, and the error
  goes to the central handler, which answers 500. The record is not deleted. (The
  notice handler, in the same situation, deletes the record and answers 200.)
\<close>

theorem deleteGalleryImage_stopped_by_storage_failure:
  "deleteGalleryImage (sample_outcome\<lparr>o_destroy := DestroyRejects timeout_error\<rparr>) (sample_id 5)
     sample_world = (fail 500 ''connect ETIMEDOUT'', sample_world)
   \<and> findById g_id (w_gallery sample_world) (sample_id 5) = Inr (Some sample_gallery_item)"
  by (simp add: deleteGalleryImage_def findById_sample_gallery_item [unfolded sample_gallery_item_def]
      sample_world_def sample_outcome_def sample_gallery_item_def errorHandler_def
      timeout_error_def new_Error_def fail_def)

subsection \<open>Updating a gallery item\<close>







lemma updateGalleryImage_clearing_body:
  "updateGalleryImage sample_js_env sample_outcome (sample_id 5) clearing_body sample_world
     = (ok 200 ''Image updated successfully''
          (sample_gallery_item\<lparr>g_category := ''Campus Tour'', g_updatedAt := 1700000000000\<rparr>),
        sample_world\<lparr>w_gallery :=
          [sample_gallery_item\<lparr>g_category := ''Campus Tour'', g_updatedAt := 1700000000000\<rparr>]\<rparr>)"
  by (simp add: updateGalleryImage_def findById_sample_gallery_item [unfolded sample_gallery_item_def]
      sample_world_def sample_outcome_def clearing_body_def lookup_def castString_def trim_def
      is_ws_def gallery_validators_def gallery_categories_def sample_gallery_item_def Let_def)



end
